theory Spec2Isabelle
  imports Main "HOL-Library.Multiset"
begin

section \<open>One-Night-Werewolf engine: data model\<close>

text \<open>
  The engine lives in \<^verbatim>\<open>src/game/logic.py\<close>. Its data classes are imported from
  \<^verbatim>\<open>game.models\<close>; the types below follow the specification (section 3) and the way
  \<^verbatim>\<open>logic.py\<close> and \<^verbatim>\<open>bot.py\<close> read and write the fields.
\<close>

text \<open>Modelled from the spec: the \<^verbatim>\<open>Role\<close> enumeration of \<^verbatim>\<open>game.models\<close>
  (Villager, Werewolf, Seer, Thief, Tanner).\<close>

datatype Role = VILLAGER | WEREWOLF | SEER | THIEF | TANNER

text \<open>Modelled from the spec: the \<^verbatim>\<open>Team\<close> enumeration of \<^verbatim>\<open>game.models\<close>
  (\<^verbatim>\<open>Team.VILLAGE\<close>, \<^verbatim>\<open>Team.WEREWOLF\<close>, \<^verbatim>\<open>Team.TANNER\<close>).\<close>

datatype Team = TEAM_VILLAGE | TEAM_WEREWOLF | TEAM_TANNER

text \<open>Modelled from the spec: the \<^verbatim>\<open>GamePhase\<close> enumeration
  (Waiting, Night, Discussion, Voting, Ended).\<close>

datatype GamePhase = WAITING | NIGHT | DISCUSSION | VOTING | ENDED

text \<open>Modelled from the spec: the \<^verbatim>\<open>NightActionType\<close> enumeration; the members are
  the ones \<^verbatim>\<open>logic.py\<close> names.\<close>

datatype NightActionType = WEREWOLF_CHECK | SEER_PLAYER | SEER_CENTER | THIEF_SWAP | THIEF_SKIP

text \<open>
  The \<^verbatim>\<open>result\<close> of a night action is a formatted, human-readable text. The text
  itself is display material; what the engine contributes are the values interpolated
  into each template, so a result is represented by its template and those values.
\<close>

datatype ResultText =
    SeerPlayerText string Role  \<comment> \<open>target's username, target's current role\<close>
  | SeerCenterText Role Role    \<comment> \<open>\<^verbatim>\<open>center_roles[0]\<close>, \<^verbatim>\<open>center_roles[1]\<close>\<close>
  | ThiefSkipText
  | ThiefSwapText string Role   \<comment> \<open>target's username, the thief's new role\<close>

text \<open>Modelled from the spec: the \<^verbatim>\<open>NightAction\<close> class (kind, optional target,
  result text).\<close>

record NightAction =
  action_type :: NightActionType
  target_player_id :: "int option"
  result :: ResultText

text \<open>Modelled from the spec: the \<^verbatim>\<open>Player\<close> class. \<^verbatim>\<open>vote_target_id\<close> is
  \<^verbatim>\<open>None\<close> until the player votes; the value \<open>-1\<close> is the abstain sentinel.\<close>

record Player =
  user_id :: int
  username :: string
  initial_role :: Role
  current_role :: Role
  has_acted :: bool
  night_action :: "NightAction option"
  vote_target_id :: "int option"

text \<open>Modelled from the spec: the \<^verbatim>\<open>GameState\<close> class. \<^verbatim>\<open>players\<close> is a Python
  dictionary from user id to \<^verbatim>\<open>Player\<close>; dictionaries keep insertion order, and
  \<^verbatim>\<open>setup_game\<close> and \<^verbatim>\<open>calculate_votes\<close> iterate in that order, so the roster is an
  association list (whose keys are distinct in every state the program can build).\<close>

record GameState =
  channel_id :: int
  host_id :: int
  players :: "(int \<times> Player) list"
  center_cards :: "Role list"
  phase :: GamePhase
  night_action_order :: "Role list"
  night_action_index :: int
  executed_player_ids :: "int list"
  winners :: "Team list"

datatype error = ValueError | IndexError | KeyError

text \<open>Modelled from the spec: \<^verbatim>\<open>GameState.get_player\<close>, the dictionary lookup
  \<^verbatim>\<open>players.get(user_id)\<close>.\<close>

definition get_player :: "GameState \<Rightarrow> int \<Rightarrow> Player option" where
  "get_player state uid = map_of (players state) uid"

text \<open>Modelled from the spec: \<^verbatim>\<open>GameState.player_count\<close>, the size of the roster.\<close>

definition player_count :: "GameState \<Rightarrow> nat" where
  "player_count state = length (players state)"

text \<open>Modelled from the spec: \<^verbatim>\<open>GameState.get_players_by_role(role, use_current=True)\<close>,
  the players whose current role is \<open>role\<close>, in roster order.\<close>

definition get_players_by_role :: "GameState \<Rightarrow> Role \<Rightarrow> Player list" where
  "get_players_by_role state role =
     filter (\<lambda>p. current_role p = role) (map snd (players state))"

text \<open>
  A field assignment through a reference obtained from the roster
  (\<^verbatim>\<open>state.players[uid].f = v\<close>, or \<^verbatim>\<open>p = state.get_player(uid); p.f = v\<close>) changes the
  object stored under \<open>uid\<close> and nothing else.
\<close>

definition update_player :: "int \<Rightarrow> (Player \<Rightarrow> Player) \<Rightarrow> GameState \<Rightarrow> GameState" where
  "update_player uid f state =
     state\<lparr>players := map (\<lambda>(k, p). if k = uid then (k, f p) else (k, p)) (players state)\<rparr>"

text \<open>The reserved vote value for "execute nobody" (\<^verbatim>\<open>-1\<close> in \<^verbatim>\<open>calculate_votes\<close>).\<close>

definition ABSTAIN :: int where
  "ABSTAIN = - 1"

section \<open>Voting\<close>

definition register_vote :: "GameState \<Rightarrow> int \<Rightarrow> int \<Rightarrow> bool \<times> GameState" where
  "register_vote state voter_id target_id =
     (case (get_player state voter_id, get_player state target_id) of
        (None, _) \<Rightarrow> (False, state)
      | (_, None) \<Rightarrow> (False, state)
      | (Some voter, Some target) \<Rightarrow>
          if voter_id = target_id then (False, state)
          else if vote_target_id voter \<noteq> None then (False, state)
          else (True, update_player voter_id (\<lambda>p. p\<lparr>vote_target_id := Some target_id\<rparr>) state))"

text \<open>
  \<^verbatim>\<open>calculate_votes\<close> builds a dictionary from identity to count. A Python dictionary
  keeps the position of a key that is assigned again and appends a new key at the end.
\<close>

fun dict_set :: "int \<Rightarrow> int \<Rightarrow> (int \<times> int) list \<Rightarrow> (int \<times> int) list" where
  "dict_set k v [] = [(k, v)]"
| "dict_set k v ((k', v') # d) = (if k' = k then (k, v) # d else (k', v') # dict_set k v d)"

text \<open>\<^verbatim>\<open>d[k] += 1\<close>: reading a missing key raises \<^verbatim>\<open>KeyError\<close>.\<close>

definition dict_incr :: "int \<Rightarrow> (int \<times> int) list \<Rightarrow> error + (int \<times> int) list" where
  "dict_incr k d = (case map_of d k of None \<Rightarrow> Inl KeyError | Some c \<Rightarrow> Inr (dict_set k (c + 1) d))"

text \<open>The dictionary comprehension \<^verbatim>\<open>{p.user_id: 0 for p in state.players.values()}\<close>.\<close>

definition zero_counts :: "Player list \<Rightarrow> (int \<times> int) list" where
  "zero_counts ps = foldl (\<lambda>d p. dict_set (user_id p) 0 d) [] ps"

text \<open>The counting loop of \<^verbatim>\<open>calculate_votes\<close>, one player per step.\<close>

fun tally_loop :: "Player list \<Rightarrow> (int \<times> int) list \<Rightarrow> error + (int \<times> int) list" where
  "tally_loop [] vote_counts = Inr vote_counts"
| "tally_loop (player # rest) vote_counts =
     (case vote_target_id player of
        None \<Rightarrow> tally_loop rest vote_counts
      | Some t \<Rightarrow>
          if t \<in> set (map fst vote_counts) then
            (case dict_incr t vote_counts of Inl e \<Rightarrow> Inl e | Inr d \<Rightarrow> tally_loop rest d)
          else if t = - 1 then
            (case dict_incr (- 1) vote_counts of Inl e \<Rightarrow> Inl e | Inr d \<Rightarrow> tally_loop rest d)
          else tally_loop rest vote_counts)"

definition calculate_votes :: "GameState \<Rightarrow> error + (int \<times> int) list" where
  "calculate_votes state =
     (let vote_counts = zero_counts (map snd (players state));
          vote_counts = dict_set (- 1) 0 vote_counts
      in tally_loop (map snd (players state)) vote_counts)"

text \<open>
  \<^verbatim>\<open>determine_execution\<close>. \<^verbatim>\<open>max\<close> of the values is taken only of a non-empty
  dictionary (the empty one returns before); \<^verbatim>\<open>max_voted[0]\<close> of an empty list would
  raise \<^verbatim>\<open>IndexError\<close>. In the three early returns \<^verbatim>\<open>executed_player_ids\<close> is not
  assigned.
\<close>

definition determine_execution :: "GameState \<Rightarrow> (error + int list) \<times> GameState" where
  "determine_execution state =
     (case calculate_votes state of
        Inl e \<Rightarrow> (Inl e, state)
      | Inr vote_counts \<Rightarrow>
         (case map snd vote_counts of
            [] \<Rightarrow> (Inr [], state)
          | c # cs \<Rightarrow>
             (let max_votes = fold max cs c in
              if max_votes = 0 then (Inr [], state)
              else
                (let max_voted = map fst (filter (\<lambda>(uid, count). count = max_votes) vote_counts) in
                 if length max_voted > 1 then (Inr [], state)
                 else
                   (case max_voted of
                      [] \<Rightarrow> (Inl IndexError, state)
                    | uid # _ \<Rightarrow>
                        if uid = - 1 then (Inr [], state\<lparr>executed_player_ids := []\<rparr>)
                        else (Inr max_voted, state\<lparr>executed_player_ids := max_voted\<rparr>))))))"

section \<open>Win evaluation\<close>

definition determine_winner :: "GameState \<Rightarrow> Team list \<times> GameState" where
  "determine_winner state =
     (let executed_ids = executed_player_ids state;
          executed_players = map (get_player state) executed_ids;
          executed_players = map the (filter (\<lambda>p. p \<noteq> None) executed_players);
          executed_roles = map current_role executed_players
      in if TANNER \<in> set executed_roles then ([TEAM_TANNER], state\<lparr>winners := [TEAM_TANNER]\<rparr>)
         else if executed_ids = [] then
           (let werewolves_in_game = get_players_by_role state WEREWOLF in
            if werewolves_in_game \<noteq> [] then ([TEAM_WEREWOLF], state\<lparr>winners := [TEAM_WEREWOLF]\<rparr>)
            else ([TEAM_VILLAGE], state\<lparr>winners := [TEAM_VILLAGE]\<rparr>))
         else if WEREWOLF \<in> set executed_roles then ([TEAM_VILLAGE], state\<lparr>winners := [TEAM_VILLAGE]\<rparr>)
         else ([TEAM_WEREWOLF], state\<lparr>winners := [TEAM_WEREWOLF]\<rparr>))"

section \<open>Dealing\<close>

definition NIGHT_ACTION_ORDER :: "Role list" where
  "NIGHT_ACTION_ORDER = [WEREWOLF, SEER, THIEF]"

text \<open>
  The loop \<^verbatim>\<open>for i, user_id in enumerate(player_ids)\<close>, started at index \<open>i\<close>;
  \<^verbatim>\<open>shuffled_roles[i]\<close> past the end of the list raises \<^verbatim>\<open>IndexError\<close>, with the
  players dealt so far already changed.
\<close>

fun deal_loop :: "nat \<Rightarrow> int list \<Rightarrow> Role list \<Rightarrow> GameState \<Rightarrow> (error + unit) \<times> GameState" where
  "deal_loop i [] shuffled_roles state = (Inr (), state)"
| "deal_loop i (uid # rest) shuffled_roles state =
     (if i < length shuffled_roles then
        (let role = shuffled_roles ! i;
             state = update_player uid (\<lambda>p. p\<lparr>initial_role := role\<rparr>) state;
             state = update_player uid (\<lambda>p. p\<lparr>current_role := role\<rparr>) state
         in deal_loop (Suc i) rest shuffled_roles state)
      else (Inl IndexError, state))"

text \<open>
  \<^verbatim>\<open>setup_game\<close>. \<^verbatim>\<open>random.shuffle\<close> is the one source of nondeterminism; the
  generator is the parameter \<open>shuffle\<close>, the function that the call applies to the copy
  of the deck. What the library guarantees of it is that the outcome is a rearrangement
  of its argument.
\<close>

definition setup_game ::
  "(Role list \<Rightarrow> Role list) \<Rightarrow> GameState \<Rightarrow> Role list \<Rightarrow> (error + unit) \<times> GameState" where
  "setup_game shuffle state role_list =
     (let pcount = player_count state;
          expected_cards = pcount + 2
      in
      if length role_list \<noteq> expected_cards then (Inl ValueError, state)
      else
        (let shuffled_roles = shuffle role_list;
             player_ids = map fst (players state)
         in case deal_loop 0 player_ids shuffled_roles state of
              (Inl e, state) \<Rightarrow> (Inl e, state)
            | (Inr _, state) \<Rightarrow>
                (Inr (),
                 state\<lparr>center_cards := drop pcount shuffled_roles,
                       night_action_order := NIGHT_ACTION_ORDER,
                       night_action_index := 0,
                       phase := NIGHT\<rparr>)))"

section \<open>Night actions\<close>

definition process_seer_action_player :: "GameState \<Rightarrow> int \<Rightarrow> int \<Rightarrow> Role option \<times> GameState" where
  "process_seer_action_player state seer_id target_id =
     (case (get_player state seer_id, get_player state target_id) of
        (None, _) \<Rightarrow> (None, state)
      | (_, None) \<Rightarrow> (None, state)
      | (Some seer, Some target) \<Rightarrow>
          if initial_role seer \<noteq> SEER then (None, state)
          else if seer_id = target_id then (None, state)
          else
            (let state = update_player seer_id (\<lambda>p. p\<lparr>night_action := Some
                           \<lparr>action_type = SEER_PLAYER,
                            target_player_id = Some target_id,
                            result = SeerPlayerText (username target) (current_role target)\<rparr>\<rparr>) state;
                 state = update_player seer_id (\<lambda>p. p\<lparr>has_acted := True\<rparr>) state
             in (Some (current_role target), state)))"

text \<open>
  \<^verbatim>\<open>process_seer_action_center\<close> formats \<^verbatim>\<open>center_roles[0]\<close> and \<^verbatim>\<open>center_roles[1]\<close>
  while it builds the action record, before anything is assigned: with fewer than two
  center cards the call raises \<^verbatim>\<open>IndexError\<close> and the state is as it was.
\<close>

definition process_seer_action_center :: "GameState \<Rightarrow> int \<Rightarrow> (error + Role list option) \<times> GameState" where
  "process_seer_action_center state seer_id =
     (case get_player state seer_id of
        None \<Rightarrow> (Inr None, state)
      | Some seer \<Rightarrow>
          if initial_role seer \<noteq> SEER then (Inr None, state)
          else
            (let center_roles = center_cards state in
             if length center_roles < 1 then (Inl IndexError, state)
             else if length center_roles < 2 then (Inl IndexError, state)
             else
               (let state = update_player seer_id (\<lambda>p. p\<lparr>night_action := Some
                              \<lparr>action_type = SEER_CENTER,
                               target_player_id = None,
                               result = SeerCenterText (center_roles ! 0) (center_roles ! 1)\<rparr>\<rparr>) state;
                    state = update_player seer_id (\<lambda>p. p\<lparr>has_acted := True\<rparr>) state
                in (Inr (Some center_roles), state))))"

definition process_thief_action :: "GameState \<Rightarrow> int \<Rightarrow> int option \<Rightarrow> Role option \<times> GameState" where
  "process_thief_action state thief_id target_id =
     (case get_player state thief_id of
        None \<Rightarrow> (None, state)
      | Some thief \<Rightarrow>
          if initial_role thief \<noteq> THIEF then (None, state)
          else
            (case target_id of
               None \<Rightarrow>
                 (let state = update_player thief_id (\<lambda>p. p\<lparr>night_action := Some
                                \<lparr>action_type = THIEF_SKIP,
                                 target_player_id = None,
                                 result = ThiefSkipText\<rparr>\<rparr>) state;
                      state = update_player thief_id (\<lambda>p. p\<lparr>has_acted := True\<rparr>) state
                  in (None, state))
             | Some tid \<Rightarrow>
                 (case get_player state tid of
                    None \<Rightarrow> (None, state)
                  | Some target \<Rightarrow>
                      if thief_id = tid then (None, state)
                      else
                        (let old_thief_role = current_role thief;
                             new_thief_role = current_role target;
                             state = update_player thief_id (\<lambda>p. p\<lparr>current_role := new_thief_role\<rparr>) state;
                             state = update_player tid (\<lambda>p. p\<lparr>current_role := old_thief_role\<rparr>) state;
                             state = update_player thief_id (\<lambda>p. p\<lparr>night_action := Some
                                       \<lparr>action_type = THIEF_SWAP,
                                        target_player_id = Some tid,
                                        result = ThiefSwapText (username target) new_thief_role\<rparr>\<rparr>) state;
                             state = update_player thief_id (\<lambda>p. p\<lparr>has_acted := True\<rparr>) state
                         in (Some new_thief_role, state)))))"

section \<open>Specification-level notions\<close>

text \<open>The win rules in the words of the specification (section 4.4): whether some
  executed identity is a roster player whose current role is \<open>r\<close>, and whether some
  roster player's current role is \<open>r\<close>.\<close>

definition executed_has_role :: "GameState \<Rightarrow> Role \<Rightarrow> bool" where
  "executed_has_role state r =
     list_ex (\<lambda>uid. case get_player state uid of None \<Rightarrow> False | Some p \<Rightarrow> current_role p = r)
       (executed_player_ids state)"

definition player_has_role :: "GameState \<Rightarrow> Role \<Rightarrow> bool" where
  "player_has_role state r = list_ex (\<lambda>(k, p). current_role p = r) (players state)"

definition winner_by_rules :: "GameState \<Rightarrow> Team" where
  "winner_by_rules state =
     (if executed_has_role state TANNER then TEAM_TANNER
      else if executed_player_ids state = [] then
        (if player_has_role state WEREWOLF then TEAM_WEREWOLF else TEAM_VILLAGE)
      else if executed_has_role state WEREWOLF then TEAM_VILLAGE
      else TEAM_WEREWOLF)"

text \<open>The tally in the words of the specification (section 4.3): the votes cast for an
  identity, the identities that have a bucket (every roster member and the abstain
  sentinel), and what it is for a candidate to hold the maximum count.\<close>

definition votes_for :: "GameState \<Rightarrow> int \<Rightarrow> int" where
  "votes_for state k =
     int (length (filter (\<lambda>p. vote_target_id p = Some k) (map snd (players state))))"

definition candidates :: "GameState \<Rightarrow> int list" where
  "candidates state = map fst (players state) @ [ABSTAIN]"

definition holds_max :: "GameState \<Rightarrow> int \<Rightarrow> bool" where
  "holds_max state k = list_all (\<lambda>k'. votes_for state k' \<le> votes_for state k) (candidates state)"

text \<open>The roster as the program builds it: a dictionary has no key twice, a player is
  stored under its own \<^verbatim>\<open>user_id\<close>, and the abstain sentinel is nobody's identity.\<close>

definition roster_ok :: "GameState \<Rightarrow> bool" where
  "roster_ok state \<longleftrightarrow>
     distinct (map fst (players state)) \<and>
     list_all (\<lambda>(k, p). user_id p = k) (players state) \<and>
     ABSTAIN \<notin> set (map fst (players state))"

text \<open>The votes for \<open>k\<close> among the players the counting loop has yet to visit.\<close>

definition cast_for :: "Player list \<Rightarrow> int \<Rightarrow> int" where
  "cast_for ps k = int (length (filter (\<lambda>p. vote_target_id p = Some k) ps))"

text \<open>The largest count of the tally and the candidates that reach it, in bucket order.\<close>

definition max_tally :: "GameState \<Rightarrow> int" where
  "max_tally state = Max (set (map (votes_for state) (candidates state)))"

definition max_voted_of :: "GameState \<Rightarrow> int list" where
  "max_voted_of state = filter (\<lambda>k. votes_for state k = max_tally state) (candidates state)"

text \<open>A roster entry after the deal has given it the card \<open>r\<close>.\<close>

definition dealt :: "int \<times> Player \<Rightarrow> Role \<Rightarrow> int \<times> Player" where
  "dealt kp r = (fst kp, (snd kp)\<lparr>initial_role := r, current_role := r\<rparr>)"

text \<open>The state with every player's \<^verbatim>\<open>has_acted\<close> flag set as \<open>flags\<close> says, and nothing
  else changed: two states that agree after this differ in \<^verbatim>\<open>has_acted\<close> flags only.\<close>

definition with_has_acted :: "(int \<Rightarrow> bool) \<Rightarrow> GameState \<Rightarrow> GameState" where
  "with_has_acted flags state =
     state\<lparr>players := map (\<lambda>(k, p). (k, p\<lparr>has_acted := flags k\<rparr>)) (players state)\<rparr>"

section \<open>Example states\<close>

text \<open>A player as it stands in the roster before any action: no vote, no night action.\<close>

definition mk_player :: "int \<Rightarrow> string \<Rightarrow> Role \<Rightarrow> Player" where
  "mk_player uid name role =
     \<lparr>user_id = uid, username = name, initial_role = role, current_role = role,
      has_acted = False, night_action = None, vote_target_id = None\<rparr>"

text \<open>Three players after the deal: a werewolf, a seer and a thief, with a villager and
  a tanner in the center.\<close>

definition example_state :: GameState where
  "example_state =
     \<lparr>channel_id = 100, host_id = 1,
      players = [(1, mk_player 1 ''alice'' WEREWOLF), (2, mk_player 2 ''bob'' SEER),
                 (3, mk_player 3 ''carol'' THIEF)],
      center_cards = [VILLAGER, TANNER], phase = NIGHT,
      night_action_order = NIGHT_ACTION_ORDER, night_action_index = 0,
      executed_player_ids = [], winners = []\<rparr>"

text \<open>The example after the thief (player 3) has swapped cards with the werewolf (player 1).\<close>

definition swapped_state :: GameState where
  "swapped_state = snd (process_thief_action example_state 3 (Some 1))"

text \<open>A finished game with a werewolf, a tanner and a villager, and a given execution.\<close>

definition ending_state :: "int list \<Rightarrow> GameState" where
  "ending_state ids =
     \<lparr>channel_id = 100, host_id = 1,
      players = [(1, mk_player 1 ''alice'' WEREWOLF), (2, mk_player 2 ''bob'' TANNER),
                 (3, mk_player 3 ''carol'' VILLAGER)],
      center_cards = [SEER, THIEF], phase = ENDED,
      night_action_order = NIGHT_ACTION_ORDER, night_action_index = 3,
      executed_player_ids = ids, winners = []\<rparr>"

text \<open>A finished game with no werewolf among the players (the card lies in the center)
  and nobody executed.\<close>

definition wolfless_state :: GameState where
  "wolfless_state = (ending_state [])\<lparr>players := [(2, mk_player 2 ''bob'' TANNER),
                 (3, mk_player 3 ''carol'' VILLAGER)], center_cards := [WEREWOLF, SEER]\<rparr>"

text \<open>Three players who have joined, before the deal.\<close>

definition waiting_state :: GameState where
  "waiting_state =
     \<lparr>channel_id = 100, host_id = 1,
      players = [(1, mk_player 1 ''alice'' VILLAGER), (2, mk_player 2 ''bob'' VILLAGER),
                 (3, mk_player 3 ''carol'' VILLAGER)],
      center_cards = [], phase = WAITING,
      night_action_order = [], night_action_index = 0,
      executed_player_ids = [], winners = []\<rparr>"

text \<open>A roster entry with a given vote, and the example in the Voting phase with a given
  roster.\<close>

definition voter :: "int \<Rightarrow> int option \<Rightarrow> int \<times> Player" where
  "voter uid target = (uid, (mk_player uid ''player'' VILLAGER)\<lparr>vote_target_id := target\<rparr>)"

definition voting_state :: "(int \<times> Player) list \<Rightarrow> GameState" where
  "voting_state roster = example_state\<lparr>players := roster, phase := VOTING\<rparr>"

section \<open>Roster lookups after an update\<close>

lemma map_of_update:
  "map_of (map (\<lambda>(k, p). if k = u then (k, f p) else (k, p)) ps) w =
     (if w = u then map_option f (map_of ps w) else map_of ps w)"
  by (induction ps) auto

lemma get_player_update:
  "get_player (update_player u f s) w =
     (if w = u then map_option f (get_player s w) else get_player s w)"
  unfolding get_player_def update_player_def by (simp add: map_of_update)

lemma get_player_phase [simp]: "get_player (s\<lparr>phase := ph\<rparr>) u = get_player s u"
  by (simp add: get_player_def)

lemma update_player_phase [simp]:
  "update_player u f (s\<lparr>phase := ph\<rparr>) = (update_player u f s)\<lparr>phase := ph\<rparr>"
  by (simp add: update_player_def)

lemma center_cards_update_player [simp]: "center_cards (update_player u f s) = center_cards s"
  by (simp add: update_player_def)

lemmas ex_defs = example_state_def mk_player_def get_player_def update_player_def
  NIGHT_ACTION_ORDER_def

lemmas vote_defs = determine_execution_def calculate_votes_def zero_counts_def dict_incr_def
  voting_state_def voter_def mk_player_def example_state_def Let_def

lemmas deal_defs = setup_game_def player_count_def update_player_def waiting_state_def
  mk_player_def NIGHT_ACTION_ORDER_def Let_def

section \<open>Vote registration\<close>

text \<open>
  Claim C1, as the code has it. \<^verbatim>\<open>register_vote\<close> returns false and leaves the state
  as it was when the voter is not in the roster, when the target is not in the roster
  (whatever the target, the abstain sentinel included), when voter and target are the
  same, or when the voter has already voted. Otherwise it returns true, the voter's
  \<^verbatim>\<open>vote_target_id\<close> becomes the target and no other player changes; every later call
  for that voter returns false and leaves the state, hence the first vote, as it is.
\<close>

theorem register_vote_rejects_or_records_once:
  "((get_player s v = None \<or> get_player s t = None \<or> v = t \<or>
      (\<exists>p. get_player s v = Some p \<and> vote_target_id p \<noteq> None))
      \<longrightarrow> register_vote s v t = (False, s)) \<and>
   (\<not> (get_player s v = None \<or> get_player s t = None \<or> v = t \<or>
      (\<exists>p. get_player s v = Some p \<and> vote_target_id p \<noteq> None))
      \<longrightarrow> (\<exists>s'. register_vote s v t = (True, s') \<and>
            s' = update_player v (\<lambda>p. p\<lparr>vote_target_id := Some t\<rparr>) s \<and>
            (\<exists>p. get_player s v = Some p \<and> get_player s' v = Some (p\<lparr>vote_target_id := Some t\<rparr>)) \<and>
            (\<forall>u. u \<noteq> v \<longrightarrow> get_player s' u = get_player s u) \<and>
            (\<forall>t'. register_vote s' v t' = (False, s'))))"
  by (auto simp: register_vote_def get_player_update split: option.splits)

text \<open>The theorem at work: player 1 votes for player 2, a second vote of player 1 is
  refused and changes nothing; a vote for oneself and a vote by a stranger are refused.\<close>

theorem register_vote_witness:
  "register_vote example_state 1 2 =
     (True, update_player 1 (\<lambda>p. p\<lparr>vote_target_id := Some 2\<rparr>) example_state) \<and>
   register_vote (update_player 1 (\<lambda>p. p\<lparr>vote_target_id := Some 2\<rparr>) example_state) 1 3 =
     (False, update_player 1 (\<lambda>p. p\<lparr>vote_target_id := Some 2\<rparr>) example_state) \<and>
   register_vote example_state 1 1 = (False, example_state) \<and>
   register_vote example_state 7 1 = (False, example_state)"
  using register_vote_rejects_or_records_once [of example_state 1 2]
        register_vote_rejects_or_records_once [of example_state 1 1]
        register_vote_rejects_or_records_once [of example_state 7 1]
  by (simp add: get_player_def example_state_def mk_player_def)

text \<open>Where the claim as written fails: player 1 is in the roster, has not voted and is
  not the sentinel, the sentinel is not in the roster, and the vote for the sentinel is
  refused.\<close>

theorem register_vote_sentinel_counterexample:
  "get_player example_state 1 = Some (mk_player 1 ''alice'' WEREWOLF) \<and>
   vote_target_id (mk_player 1 ''alice'' WEREWOLF) = None \<and>
   get_player example_state ABSTAIN = None \<and>
   (1::int) \<noteq> ABSTAIN \<and>
   register_vote example_state 1 ABSTAIN = (False, example_state)"
  by (simp add: register_vote_def get_player_def example_state_def ABSTAIN_def mk_player_def)

section \<open>Win evaluation\<close>

lemma executed_roles_set:
  "set (map current_role (map the (filter (\<lambda>p. p \<noteq> None) (map (get_player s) ids)))) =
     {r. \<exists>uid \<in> set ids. \<exists>p. get_player s uid = Some p \<and> current_role p = r}"
  by (induction ids) (auto split: option.splits)

lemma executed_has_role_iff:
  "executed_has_role s r \<longleftrightarrow>
     r \<in> set (map current_role (map the (filter (\<lambda>p. p \<noteq> None)
               (map (get_player s) (executed_player_ids s)))))"
  unfolding executed_roles_set executed_has_role_def list_ex_iff
  by (auto split: option.splits)

lemma player_has_role_iff:
  "player_has_role s r \<longleftrightarrow> get_players_by_role s r \<noteq> []"
  unfolding player_has_role_def get_players_by_role_def list_ex_iff filter_empty_conv
  by force

text \<open>
  Claim C3. For every state, \<^verbatim>\<open>determine_winner\<close> returns the one-element list that the
  priority rules give from the executed identities and the players' current roles, and
  stores it in \<^verbatim>\<open>winners\<close>: Tanner if some executed player's current role is Tanner;
  otherwise, with nobody executed, Werewolf if some player's current role is Werewolf and
  Village if none is; otherwise Village if some executed player's current role is
  Werewolf; otherwise Werewolf. The five cases exclude one another and cover every state.
\<close>

theorem determine_winner_by_rules:
  "determine_winner s = ([winner_by_rules s], s\<lparr>winners := [winner_by_rules s]\<rparr>) \<and>
   (executed_has_role s TANNER \<longrightarrow> fst (determine_winner s) = [TEAM_TANNER]) \<and>
   (\<not> executed_has_role s TANNER \<and> executed_player_ids s = [] \<and> player_has_role s WEREWOLF
      \<longrightarrow> fst (determine_winner s) = [TEAM_WEREWOLF]) \<and>
   (\<not> executed_has_role s TANNER \<and> executed_player_ids s = [] \<and> \<not> player_has_role s WEREWOLF
      \<longrightarrow> fst (determine_winner s) = [TEAM_VILLAGE]) \<and>
   (\<not> executed_has_role s TANNER \<and> executed_player_ids s \<noteq> [] \<and> executed_has_role s WEREWOLF
      \<longrightarrow> fst (determine_winner s) = [TEAM_VILLAGE]) \<and>
   (\<not> executed_has_role s TANNER \<and> executed_player_ids s \<noteq> [] \<and> \<not> executed_has_role s WEREWOLF
      \<longrightarrow> fst (determine_winner s) = [TEAM_WEREWOLF])"
proof -
  have eq: "determine_winner s = ([winner_by_rules s], s\<lparr>winners := [winner_by_rules s]\<rparr>)"
    unfolding determine_winner_def winner_by_rules_def Let_def
      executed_has_role_iff player_has_role_iff
    by simp
  show ?thesis
    unfolding eq by (simp add: winner_by_rules_def)
qed

text \<open>One game for each rule.\<close>

theorem determine_winner_witness:
  "fst (determine_winner (ending_state [2])) = [TEAM_TANNER] \<and>
   fst (determine_winner (ending_state [])) = [TEAM_WEREWOLF] \<and>
   fst (determine_winner wolfless_state) = [TEAM_VILLAGE] \<and>
   fst (determine_winner (ending_state [1])) = [TEAM_VILLAGE] \<and>
   fst (determine_winner (ending_state [3])) = [TEAM_WEREWOLF]"
  using determine_winner_by_rules [of "ending_state [2]"]
        determine_winner_by_rules [of "ending_state []"]
        determine_winner_by_rules [of wolfless_state]
        determine_winner_by_rules [of "ending_state [1]"]
        determine_winner_by_rules [of "ending_state [3]"]
  by (simp add: winner_by_rules_def executed_has_role_def player_has_role_def
        ending_state_def wolfless_state_def mk_player_def get_player_def)

section \<open>The thief\<close>

lemma thief_swap_outcome:
  assumes "get_player s a = Some pa" "initial_role pa = THIEF" "get_player s b = Some pb" "a \<noteq> b"
  shows "process_thief_action s a (Some b) =
     (Some (current_role pb),
      update_player a (\<lambda>p. p\<lparr>has_acted := True\<rparr>)
       (update_player a (\<lambda>p. p\<lparr>night_action := Some
            \<lparr>action_type = THIEF_SWAP, target_player_id = Some b,
             result = ThiefSwapText (username pb) (current_role pb)\<rparr>\<rparr>)
         (update_player b (\<lambda>p. p\<lparr>current_role := current_role pa\<rparr>)
           (update_player a (\<lambda>p. p\<lparr>current_role := current_role pb\<rparr>) s))))"
  using assms by (simp add: process_thief_action_def Let_def)

lemma thief_skip_outcome:
  assumes "get_player s a = Some pa" "initial_role pa = THIEF"
  shows "process_thief_action s a None =
     (None,
      update_player a (\<lambda>p. p\<lparr>has_acted := True\<rparr>)
       (update_player a (\<lambda>p. p\<lparr>night_action := Some
            \<lparr>action_type = THIEF_SKIP, target_player_id = None, result = ThiefSkipText\<rparr>\<rparr>) s))"
  using assms by (simp add: process_thief_action_def Let_def)

lemma thief_not_eligible:
  "get_player s a = None \<or> (\<exists>p. get_player s a = Some p \<and> initial_role p \<noteq> THIEF)
     \<Longrightarrow> process_thief_action s a tgt = (None, s)"
  by (auto simp: process_thief_action_def)

text \<open>
  Claim C6. When \<open>a\<close> is a roster player whose initial role is Thief and \<open>b\<close> is another
  roster player, \<^verbatim>\<open>process_thief_action\<close> returns \<open>b\<close>'s role; afterwards \<open>a\<close>'s current
  role is the one \<open>b\<close> had and \<open>b\<close>'s current role is the one \<open>a\<close> had, every other player
  is as before, and every initial role is as before. A call that targets the caller
  or an identity outside the roster returns \<^verbatim>\<open>None\<close> and changes nothing. A skip
  (no target) returns \<^verbatim>\<open>None\<close> and leaves every player's current and initial role.
\<close>

theorem thief_swap_exchanges_current_roles:
  "(get_player s a = Some pa \<and> initial_role pa = THIEF \<and> get_player s b = Some pb \<and> a \<noteq> b
      \<longrightarrow> (\<exists>s'. process_thief_action s a (Some b) = (Some (current_role pb), s') \<and>
            map_option current_role (get_player s' a) = Some (current_role pb) \<and>
            map_option current_role (get_player s' b) = Some (current_role pa) \<and>
            (\<forall>u. u \<noteq> a \<and> u \<noteq> b \<longrightarrow> get_player s' u = get_player s u) \<and>
            (\<forall>u. map_option initial_role (get_player s' u) = map_option initial_role (get_player s u)))) \<and>
   process_thief_action s a (Some a) = (None, s) \<and>
   (get_player s b = None \<longrightarrow> process_thief_action s a (Some b) = (None, s)) \<and>
   (\<exists>s'. process_thief_action s a None = (None, s') \<and>
      (\<forall>u. map_option current_role (get_player s' u) = map_option current_role (get_player s u)) \<and>
      (\<forall>u. map_option initial_role (get_player s' u) = map_option initial_role (get_player s u)))"
proof (intro conjI impI)
  assume h: "get_player s a = Some pa \<and> initial_role pa = THIEF \<and> get_player s b = Some pb \<and> a \<noteq> b"
  then show "\<exists>s'. process_thief_action s a (Some b) = (Some (current_role pb), s') \<and>
            map_option current_role (get_player s' a) = Some (current_role pb) \<and>
            map_option current_role (get_player s' b) = Some (current_role pa) \<and>
            (\<forall>u. u \<noteq> a \<and> u \<noteq> b \<longrightarrow> get_player s' u = get_player s u) \<and>
            (\<forall>u. map_option initial_role (get_player s' u) = map_option initial_role (get_player s u))"
    by (simp add: thief_swap_outcome get_player_update option.map_comp comp_def)
next
  show "process_thief_action s a (Some a) = (None, s)"
    by (simp add: process_thief_action_def split: option.splits)
next
  assume "get_player s b = None"
  then show "process_thief_action s a (Some b) = (None, s)"
    by (simp add: process_thief_action_def split: option.splits)
next
  show "\<exists>s'. process_thief_action s a None = (None, s') \<and>
      (\<forall>u. map_option current_role (get_player s' u) = map_option current_role (get_player s u)) \<and>
      (\<forall>u. map_option initial_role (get_player s' u) = map_option initial_role (get_player s u))"
  proof (cases "get_player s a = None \<or> (\<exists>p. get_player s a = Some p \<and> initial_role p \<noteq> THIEF)")
    case True
    then show ?thesis by (simp add: thief_not_eligible)
  next
    case False
    then obtain pa where "get_player s a = Some pa" "initial_role pa = THIEF" by auto
    then show ?thesis
      by (simp add: thief_skip_outcome get_player_update option.map_comp comp_def)
  qed
qed

text \<open>The thief (player 3) takes the werewolf card of player 1; a swap with the
  unknown identity 9 is refused.\<close>

theorem thief_swap_witness:
  "process_thief_action example_state 3 (Some 1) = (Some WEREWOLF, swapped_state) \<and>
   map_option current_role (get_player swapped_state 3) = Some WEREWOLF \<and>
   map_option current_role (get_player swapped_state 1) = Some THIEF \<and>
   get_player swapped_state 2 = get_player example_state 2 \<and>
   map_option initial_role (get_player swapped_state 3) = Some THIEF \<and>
   map_option initial_role (get_player swapped_state 1) = Some WEREWOLF \<and>
   process_thief_action example_state 3 (Some 9) = (None, example_state)"
  using thief_swap_exchanges_current_roles
          [of example_state 3 "mk_player 3 ''carol'' THIEF" 1 "mk_player 1 ''alice'' WEREWOLF"]
        thief_swap_exchanges_current_roles [where s = example_state and a = 3 and b = 9]
  by (simp add: swapped_state_def process_thief_action_def Let_def ex_defs)

section \<open>The seer\<close>

lemma seer_player_outcome:
  assumes "get_player s a = Some pa" "initial_role pa = SEER" "get_player s b = Some pb" "a \<noteq> b"
  shows "process_seer_action_player s a b =
     (Some (current_role pb),
      update_player a (\<lambda>p. p\<lparr>has_acted := True\<rparr>)
       (update_player a (\<lambda>p. p\<lparr>night_action := Some
            \<lparr>action_type = SEER_PLAYER, target_player_id = Some b,
             result = SeerPlayerText (username pb) (current_role pb)\<rparr>\<rparr>) s))"
  using assms by (simp add: process_seer_action_player_def Let_def)

lemma seer_center_outcome:
  assumes "get_player s a = Some pa" "initial_role pa = SEER" "2 \<le> length (center_cards s)"
  shows "process_seer_action_center s a =
     (Inr (Some (center_cards s)),
      update_player a (\<lambda>p. p\<lparr>has_acted := True\<rparr>)
       (update_player a (\<lambda>p. p\<lparr>night_action := Some
            \<lparr>action_type = SEER_CENTER, target_player_id = None,
             result = SeerCenterText (center_cards s ! 0) (center_cards s ! 1)\<rparr>\<rparr>) s))"
  using assms by (auto simp: process_seer_action_center_def Let_def)

lemma seer_not_eligible:
  "get_player s a = None \<or> (\<exists>p. get_player s a = Some p \<and> initial_role p \<noteq> SEER)
     \<Longrightarrow> process_seer_action_player s a b = (None, s) \<and>
         process_seer_action_center s a = (Inr None, s)"
  by (auto simp: process_seer_action_player_def process_seer_action_center_def split: option.splits)

lemma two_cards: "length xs = 2 \<Longrightarrow> xs = [xs ! 0, xs ! 1]"
  by (cases xs; cases "tl xs") auto

text \<open>
  Claim C7. A roster player \<open>a\<close> whose initial role is Seer, inspecting another roster
  player \<open>b\<close>, receives \<open>b\<close>'s current role. The call returns \<^verbatim>\<open>None\<close> and records nothing
  when the target is the caller or is not in the roster. With two center cards, the
  center inspection returns the center cards as stored: the first, then the second.
\<close>

theorem seer_sees_current_role_and_center:
  "(get_player s a = Some pa \<and> initial_role pa = SEER \<and> get_player s b = Some pb \<and> a \<noteq> b
      \<longrightarrow> fst (process_seer_action_player s a b) = Some (current_role pb)) \<and>
   process_seer_action_player s a a = (None, s) \<and>
   (get_player s b = None \<longrightarrow> process_seer_action_player s a b = (None, s)) \<and>
   (get_player s a = Some pa \<and> initial_role pa = SEER \<and> length (center_cards s) = 2
      \<longrightarrow> fst (process_seer_action_center s a) = Inr (Some (center_cards s)) \<and>
          center_cards s = [center_cards s ! 0, center_cards s ! 1])"
proof (intro conjI impI)
  show "process_seer_action_player s a a = (None, s)"
    by (simp add: process_seer_action_player_def split: option.splits)
next
  assume "get_player s b = None"
  then show "process_seer_action_player s a b = (None, s)"
    by (simp add: process_seer_action_player_def split: option.splits)
next
  assume "get_player s a = Some pa \<and> initial_role pa = SEER \<and> length (center_cards s) = 2"
  then show "fst (process_seer_action_center s a) = Inr (Some (center_cards s))"
    by (simp add: seer_center_outcome)
next
  assume "get_player s a = Some pa \<and> initial_role pa = SEER \<and> length (center_cards s) = 2"
  then show "center_cards s = [center_cards s ! 0, center_cards s ! 1]"
    using two_cards by blast
qed (simp add: seer_player_outcome)

text \<open>After the swap player 1 was dealt the werewolf and holds the thief card: the seer
  (player 2) is shown the thief.\<close>

theorem seer_witness:
  "map_option initial_role (get_player swapped_state 1) = Some WEREWOLF \<and>
   fst (process_seer_action_player swapped_state 2 1) = Some THIEF \<and>
   process_seer_action_player swapped_state 2 9 = (None, swapped_state) \<and>
   fst (process_seer_action_center swapped_state 2) = Inr (Some [VILLAGER, TANNER])"
  using seer_sees_current_role_and_center
          [of swapped_state 2 "mk_player 2 ''bob'' SEER" 1
              "(mk_player 1 ''alice'' WEREWOLF)\<lparr>current_role := THIEF\<rparr>"]
        seer_sees_current_role_and_center [where s = swapped_state and a = 2 and b = 9]
  by (simp add: swapped_state_def process_thief_action_def Let_def ex_defs)

section \<open>Eligibility for night actions\<close>

text \<open>
  Claim C8, as the code has it. A seer action by a caller who is not in the roster or
  whose initial role is not Seer, and a thief action by a caller who is not in the roster
  or whose initial role is not Thief, return the failure value and leave the state as it
  was. The phase plays no part: the three functions return the same value and make the
  same changes whatever the phase is.
\<close>

theorem night_action_gated_by_initial_role_only:
  "(get_player s a = None \<or> (\<exists>p. get_player s a = Some p \<and> initial_role p \<noteq> SEER)
      \<longrightarrow> process_seer_action_player s a b = (None, s) \<and>
          process_seer_action_center s a = (Inr None, s)) \<and>
   (get_player s a = None \<or> (\<exists>p. get_player s a = Some p \<and> initial_role p \<noteq> THIEF)
      \<longrightarrow> process_thief_action s a tgt = (None, s)) \<and>
   process_seer_action_player (s\<lparr>phase := ph\<rparr>) a b =
     (fst (process_seer_action_player s a b), (snd (process_seer_action_player s a b))\<lparr>phase := ph\<rparr>) \<and>
   process_seer_action_center (s\<lparr>phase := ph\<rparr>) a =
     (fst (process_seer_action_center s a), (snd (process_seer_action_center s a))\<lparr>phase := ph\<rparr>) \<and>
   process_thief_action (s\<lparr>phase := ph\<rparr>) a tgt =
     (fst (process_thief_action s a tgt), (snd (process_thief_action s a tgt))\<lparr>phase := ph\<rparr>)"
proof (intro conjI impI)
  assume "get_player s a = None \<or> (\<exists>p. get_player s a = Some p \<and> initial_role p \<noteq> SEER)"
  then show "process_seer_action_player s a b = (None, s)"
    and "process_seer_action_center s a = (Inr None, s)"
    using seer_not_eligible by blast+
next
  assume "get_player s a = None \<or> (\<exists>p. get_player s a = Some p \<and> initial_role p \<noteq> THIEF)"
  then show "process_thief_action s a tgt = (None, s)"
    by (rule thief_not_eligible)
next
  show "process_seer_action_player (s\<lparr>phase := ph\<rparr>) a b =
     (fst (process_seer_action_player s a b), (snd (process_seer_action_player s a b))\<lparr>phase := ph\<rparr>)"
    by (simp add: process_seer_action_player_def Let_def split: option.splits)
next
  show "process_seer_action_center (s\<lparr>phase := ph\<rparr>) a =
     (fst (process_seer_action_center s a), (snd (process_seer_action_center s a))\<lparr>phase := ph\<rparr>)"
    by (simp add: process_seer_action_center_def Let_def split: option.splits)
next
  show "process_thief_action (s\<lparr>phase := ph\<rparr>) a tgt =
     (fst (process_thief_action s a tgt), (snd (process_thief_action s a tgt))\<lparr>phase := ph\<rparr>)"
    by (simp add: process_thief_action_def Let_def split: option.splits)
qed

text \<open>The werewolf is refused as a seer, the seer as a thief, and so is player 1 after
  the swap, whose current role is Thief and whose initial role is not.\<close>

theorem night_action_gate_witness:
  "process_seer_action_player example_state 1 2 = (None, example_state) \<and>
   process_seer_action_center example_state 1 = (Inr None, example_state) \<and>
   process_thief_action example_state 2 (Some 1) = (None, example_state) \<and>
   process_thief_action swapped_state 1 (Some 2) = (None, swapped_state)"
  using night_action_gated_by_initial_role_only [of example_state 1 2 "Some 1" NIGHT]
        night_action_gated_by_initial_role_only [of example_state 2 2 "Some 1" NIGHT]
        night_action_gated_by_initial_role_only [of swapped_state 1 2 "Some 2" NIGHT]
  by (simp add: swapped_state_def process_thief_action_def Let_def ex_defs)

text \<open>Where the claim as written fails: in the Voting phase the seer's inspection and
  the thief's swap go through and change the state.\<close>

theorem night_action_wrong_phase_counterexample:
  "phase (example_state\<lparr>phase := VOTING\<rparr>) = VOTING \<and>
   map_option initial_role (get_player (example_state\<lparr>phase := VOTING\<rparr>) 2) = Some SEER \<and>
   fst (process_seer_action_player (example_state\<lparr>phase := VOTING\<rparr>) 2 1) = Some WEREWOLF \<and>
   map_option has_acted (get_player (example_state\<lparr>phase := VOTING\<rparr>) 2) = Some False \<and>
   map_option has_acted
     (get_player (snd (process_seer_action_player (example_state\<lparr>phase := VOTING\<rparr>) 2 1)) 2) = Some True \<and>
   fst (process_thief_action (example_state\<lparr>phase := VOTING\<rparr>) 3 (Some 1)) = Some WEREWOLF \<and>
   map_option current_role
     (get_player (snd (process_thief_action (example_state\<lparr>phase := VOTING\<rparr>) 3 (Some 1))) 3) = Some WEREWOLF"
  by (simp add: process_seer_action_player_def process_thief_action_def Let_def ex_defs)

section \<open>Repeated thief actions\<close>

lemma map_of_flags:
  "map_of (map (\<lambda>(k, p). (k, p\<lparr>has_acted := h k\<rparr>)) ps) u =
     map_option (\<lambda>p. p\<lparr>has_acted := h u\<rparr>) (map_of ps u)"
  by (induction ps) auto

lemma get_player_with_has_acted:
  "get_player (with_has_acted h s) u = map_option (\<lambda>p. p\<lparr>has_acted := h u\<rparr>) (get_player s u)"
  by (simp add: get_player_def with_has_acted_def map_of_flags)

lemma update_player_with_has_acted:
  "(\<And>p x. f (p\<lparr>has_acted := x\<rparr>) = (f p)\<lparr>has_acted := x\<rparr>) \<Longrightarrow>
     update_player u f (with_has_acted h s) = with_has_acted h (update_player u f s)"
  by (simp add: with_has_acted_def update_player_def case_prod_unfold comp_def)

lemma with_has_acted_mark:
  "with_has_acted g (update_player u (\<lambda>p. p\<lparr>has_acted := x\<rparr>) s) = with_has_acted g s"
  by (simp add: with_has_acted_def update_player_def case_prod_unfold comp_def)

lemma with_has_acted_twice:
  "with_has_acted g (with_has_acted h s) = with_has_acted g s"
  by (simp add: with_has_acted_def case_prod_unfold comp_def)

lemma thief_ignores_has_acted:
  "fst (process_thief_action (with_has_acted h s) a tgt) = fst (process_thief_action s a tgt) \<and>
   with_has_acted g (snd (process_thief_action (with_has_acted h s) a tgt)) =
     with_has_acted g (snd (process_thief_action s a tgt))"
proof (cases "get_player s a = None \<or> (\<exists>p. get_player s a = Some p \<and> initial_role p \<noteq> THIEF)")
  case True
  then have "get_player (with_has_acted h s) a = None \<or>
      (\<exists>p. get_player (with_has_acted h s) a = Some p \<and> initial_role p \<noteq> THIEF)"
    by (auto simp: get_player_with_has_acted)
  then show ?thesis
    using True by (simp add: thief_not_eligible with_has_acted_twice)
next
  case False
  then obtain pa where pa: "get_player s a = Some pa" "initial_role pa = THIEF" by auto
  let ?pa = "pa\<lparr>has_acted := h a\<rparr>"
  have pa': "get_player (with_has_acted h s) a = Some ?pa" "initial_role ?pa = THIEF"
    using pa by (simp_all add: get_player_with_has_acted)
  show ?thesis
  proof (cases tgt)
    case None
    show ?thesis
      unfolding None thief_skip_outcome [OF pa] thief_skip_outcome [OF pa']
      by (simp add: with_has_acted_mark update_player_with_has_acted with_has_acted_twice)
  next
    case (Some b)
    show ?thesis
    proof (cases "get_player s b")
      case None
      then have "get_player (with_has_acted h s) b = None"
        by (simp add: get_player_with_has_acted)
      with None pa pa' show ?thesis
        by (simp add: Some process_thief_action_def with_has_acted_twice)
    next
      case (Some pb)
      let ?pb = "pb\<lparr>has_acted := h b\<rparr>"
      have pb': "get_player (with_has_acted h s) b = Some ?pb"
        using Some by (simp add: get_player_with_has_acted)
      show ?thesis
      proof (cases "a = b")
        case True
        with Some pb' pa pa' show ?thesis
          by (simp add: \<open>tgt = Some b\<close> process_thief_action_def with_has_acted_twice)
      next
        case False
        show ?thesis
          unfolding \<open>tgt = Some b\<close> thief_swap_outcome [OF pa Some False]
            thief_swap_outcome [OF pa' pb' False]
          by (simp add: with_has_acted_mark update_player_with_has_acted with_has_acted_twice)
      qed
    qed
  qed
qed

lemma thief_swaps_back:
  assumes h: "get_player s a = Some pa \<and> initial_role pa = THIEF \<and> get_player s b = Some pb \<and> a \<noteq> b"
  shows "\<exists>s1 s2. process_thief_action s a (Some b) = (Some (current_role pb), s1) \<and>
           map_option has_acted (get_player s1 a) = Some True \<and>
           process_thief_action s1 a (Some b) = (Some (current_role pa), s2) \<and>
           map_option current_role (get_player s2 a) = Some (current_role pa) \<and>
           map_option current_role (get_player s2 b) = Some (current_role pb)"
proof -
  define s1 where "s1 = snd (process_thief_action s a (Some b))"
  have r1: "process_thief_action s a (Some b) = (Some (current_role pb), s1)"
    using h by (simp add: s1_def thief_swap_outcome)
  have s1_eq: "s1 = update_player a (\<lambda>p. p\<lparr>has_acted := True\<rparr>)
       (update_player a (\<lambda>p. p\<lparr>night_action := Some
            \<lparr>action_type = THIEF_SWAP, target_player_id = Some b,
             result = ThiefSwapText (username pb) (current_role pb)\<rparr>\<rparr>)
         (update_player b (\<lambda>p. p\<lparr>current_role := current_role pa\<rparr>)
           (update_player a (\<lambda>p. p\<lparr>current_role := current_role pb\<rparr>) s)))"
    using h by (simp add: s1_def thief_swap_outcome)
  obtain qa where qa: "get_player s1 a = Some qa" "initial_role qa = THIEF"
      "current_role qa = current_role pb" "has_acted qa"
    using h by (simp add: s1_eq get_player_update)
  obtain qb where qb: "get_player s1 b = Some qb" "current_role qb = current_role pa"
    using h by (simp add: s1_eq get_player_update)
  define s2 where "s2 = snd (process_thief_action s1 a (Some b))"
  have ab: "a \<noteq> b" using h by simp
  have r2: "process_thief_action s1 a (Some b) = (Some (current_role pa), s2)"
    using thief_swap_outcome [OF qa(1) qa(2) qb(1) ab] qb(2) by (simp add: s2_def)
  have "map_option current_role (get_player s2 a) = Some (current_role pa)"
    and "map_option current_role (get_player s2 b) = Some (current_role pb)"
    using thief_swap_outcome [OF qa(1) qa(2) qb(1) ab] qa qb ab
    by (simp_all add: s2_def get_player_update)
  with r1 r2 qa show ?thesis by auto
qed

text \<open>
  Claim C9, as the code has it. \<^verbatim>\<open>process_thief_action\<close> marks the thief as having acted
  when a swap completes and when a skip completes, and it never reads that mark. A thief
  who swaps and calls again with the same target swaps again, which hands both cards
  back. A skip by an eligible thief, whatever the mark, returns \<^verbatim>\<open>None\<close>, sets the mark,
  records the skip and leaves every other player. A thief whose mark is set and who
  names another roster player gets the swap. In general, the returned value does not
  depend on any \<^verbatim>\<open>has_acted\<close> flag of the state, and neither does the resulting state,
  the flags themselves apart.
\<close>

theorem thief_swap_not_guarded_by_has_acted:
  "(get_player s a = Some pa \<and> initial_role pa = THIEF \<and> get_player s b = Some pb \<and> a \<noteq> b
     \<longrightarrow> (\<exists>s1 s2. process_thief_action s a (Some b) = (Some (current_role pb), s1) \<and>
           map_option has_acted (get_player s1 a) = Some True \<and>
           process_thief_action s1 a (Some b) = (Some (current_role pa), s2) \<and>
           map_option current_role (get_player s2 a) = Some (current_role pa) \<and>
           map_option current_role (get_player s2 b) = Some (current_role pb))) \<and>
   (get_player s a = Some pa \<and> initial_role pa = THIEF
     \<longrightarrow> (\<exists>s'. process_thief_action s a None = (None, s') \<and>
           map_option has_acted (get_player s' a) = Some True \<and>
           map_option (action_type \<circ> the \<circ> night_action) (get_player s' a) = Some THIEF_SKIP \<and>
           (\<forall>u. u \<noteq> a \<longrightarrow> get_player s' u = get_player s u))) \<and>
   (get_player s a = Some pa \<and> initial_role pa = THIEF \<and> has_acted pa \<and>
    get_player s b = Some pb \<and> a \<noteq> b
     \<longrightarrow> (\<exists>s'. process_thief_action s a (Some b) = (Some (current_role pb), s') \<and>
           map_option current_role (get_player s' a) = Some (current_role pb) \<and>
           map_option current_role (get_player s' b) = Some (current_role pa))) \<and>
   fst (process_thief_action (with_has_acted flags s) a tgt) = fst (process_thief_action s a tgt) \<and>
   with_has_acted flags' (snd (process_thief_action (with_has_acted flags s) a tgt)) =
     with_has_acted flags' (snd (process_thief_action s a tgt))"
proof (intro conjI impI)
  assume "get_player s a = Some pa \<and> initial_role pa = THIEF \<and> get_player s b = Some pb \<and> a \<noteq> b"
  then show "\<exists>s1 s2. process_thief_action s a (Some b) = (Some (current_role pb), s1) \<and>
           map_option has_acted (get_player s1 a) = Some True \<and>
           process_thief_action s1 a (Some b) = (Some (current_role pa), s2) \<and>
           map_option current_role (get_player s2 a) = Some (current_role pa) \<and>
           map_option current_role (get_player s2 b) = Some (current_role pb)"
    by (rule thief_swaps_back)
next
  assume "get_player s a = Some pa \<and> initial_role pa = THIEF"
  then show "\<exists>s'. process_thief_action s a None = (None, s') \<and>
           map_option has_acted (get_player s' a) = Some True \<and>
           map_option (action_type \<circ> the \<circ> night_action) (get_player s' a) = Some THIEF_SKIP \<and>
           (\<forall>u. u \<noteq> a \<longrightarrow> get_player s' u = get_player s u)"
    by (simp add: thief_skip_outcome get_player_update)
next
  assume "get_player s a = Some pa \<and> initial_role pa = THIEF \<and> has_acted pa \<and>
    get_player s b = Some pb \<and> a \<noteq> b"
  then show "\<exists>s'. process_thief_action s a (Some b) = (Some (current_role pb), s') \<and>
           map_option current_role (get_player s' a) = Some (current_role pb) \<and>
           map_option current_role (get_player s' b) = Some (current_role pa)"
    by (simp add: thief_swap_outcome get_player_update)
next
  show "fst (process_thief_action (with_has_acted flags s) a tgt) = fst (process_thief_action s a tgt)"
    using thief_ignores_has_acted by blast
next
  show "with_has_acted flags' (snd (process_thief_action (with_has_acted flags s) a tgt)) =
     with_has_acted flags' (snd (process_thief_action s a tgt))"
    using thief_ignores_has_acted by blast
qed

text \<open>The thief of the example swaps with player 1 twice and holds the thief card again;
  a skip sets the mark, a skip after the swap is recorded as well, and with every mark
  set beforehand the swap with player 2 still yields the seer card.\<close>

theorem thief_second_swap_witness:
  "map_option has_acted (get_player swapped_state 3) = Some True \<and>
   fst (process_thief_action swapped_state 3 (Some 1)) = Some THIEF \<and>
   map_option current_role (get_player (snd (process_thief_action swapped_state 3 (Some 1))) 3) = Some THIEF \<and>
   map_option current_role (get_player (snd (process_thief_action swapped_state 3 (Some 1))) 1) = Some WEREWOLF \<and>
   map_option has_acted (get_player example_state 3) = Some False \<and>
   map_option has_acted (get_player (snd (process_thief_action example_state 3 None)) 3) = Some True \<and>
   fst (process_thief_action swapped_state 3 None) = None \<and>
   map_option (action_type \<circ> the \<circ> night_action)
     (get_player (snd (process_thief_action swapped_state 3 None)) 3) = Some THIEF_SKIP \<and>
   fst (process_thief_action (with_has_acted (\<lambda>k. True) example_state) 3 (Some 2)) = Some SEER"
  using thief_swap_not_guarded_by_has_acted
          [where s = example_state and a = 3 and pa = "mk_player 3 ''carol'' THIEF" and b = 1
             and pb = "mk_player 1 ''alice'' WEREWOLF" and flags = "\<lambda>k. True" and tgt = "Some 2"]
        thief_swap_not_guarded_by_has_acted
          [where s = swapped_state and a = 3
             and pa = "(mk_player 3 ''carol'' THIEF)\<lparr>current_role := WEREWOLF,
                   night_action := Some \<lparr>action_type = THIEF_SWAP, target_player_id = Some 1,
                      result = ThiefSwapText ''alice'' WEREWOLF\<rparr>, has_acted := True\<rparr>"
             and b = 1 and pb = "(mk_player 1 ''alice'' WEREWOLF)\<lparr>current_role := THIEF\<rparr>"]
  by (simp add: swapped_state_def process_thief_action_def with_has_acted_def Let_def ex_defs)

text \<open>Where the claim as written fails: the thief has acted and holds the werewolf card;
  a second call exchanges it for the seer's card.\<close>

theorem thief_second_swap_counterexample:
  "map_option has_acted (get_player swapped_state 3) = Some True \<and>
   map_option current_role (get_player swapped_state 3) = Some WEREWOLF \<and>
   fst (process_thief_action swapped_state 3 (Some 2)) = Some SEER \<and>
   map_option current_role (get_player (snd (process_thief_action swapped_state 3 (Some 2))) 3) = Some SEER \<and>
   map_option current_role (get_player (snd (process_thief_action swapped_state 3 (Some 2))) 2) = Some WEREWOLF"
  by (simp add: swapped_state_def process_thief_action_def Let_def ex_defs)

section \<open>Center inspection without a deal\<close>

text \<open>
  Claim C10. Once the seer checks pass, \<^verbatim>\<open>process_seer_action_center\<close> needs two center
  cards: with fewer it raises \<^verbatim>\<open>IndexError\<close> (and leaves the state as it was) instead of
  returning a failure value; with two or more it returns the cards.
\<close>

theorem seer_center_needs_two_cards:
  "get_player s a = Some pa \<and> initial_role pa = SEER \<longrightarrow>
     (length (center_cards s) < 2 \<longrightarrow> process_seer_action_center s a = (Inl IndexError, s)) \<and>
     (2 \<le> length (center_cards s) \<longrightarrow>
        (\<exists>s'. process_seer_action_center s a = (Inr (Some (center_cards s)), s')))"
  by (auto simp: process_seer_action_center_def Let_def)

theorem seer_center_witness:
  "process_seer_action_center (example_state\<lparr>center_cards := []\<rparr>) 2 =
     (Inl IndexError, example_state\<lparr>center_cards := []\<rparr>) \<and>
   process_seer_action_center (example_state\<lparr>center_cards := [TANNER]\<rparr>) 2 =
     (Inl IndexError, example_state\<lparr>center_cards := [TANNER]\<rparr>) \<and>
   fst (process_seer_action_center example_state 2) = Inr (Some [VILLAGER, TANNER])"
  using seer_center_needs_two_cards [of "example_state\<lparr>center_cards := []\<rparr>" 2 "mk_player 2 ''bob'' SEER"]
        seer_center_needs_two_cards [of "example_state\<lparr>center_cards := [TANNER]\<rparr>" 2 "mk_player 2 ''bob'' SEER"]
        seer_center_needs_two_cards [of example_state 2 "mk_player 2 ''bob'' SEER"]
  by (simp add: process_seer_action_center_def Let_def ex_defs)

section \<open>Tally and execution\<close>

lemma dict_set_fresh: "k \<notin> set (map fst d) \<Longrightarrow> dict_set k v d = d @ [(k, v)]"
  by (induction d) auto

lemma zero_counts_fold:
  "distinct (map fst d @ map user_id ps) \<Longrightarrow>
     foldl (\<lambda>d p. dict_set (user_id p) 0 d) d ps = d @ map (\<lambda>p. (user_id p, 0)) ps"
proof (induction ps arbitrary: d)
  case Nil
  then show ?case by simp
next
  case (Cons p ps)
  have "user_id p \<notin> set (map fst d)" using Cons.prems by auto
  then have "dict_set (user_id p) 0 d = d @ [(user_id p, 0)]" by (rule dict_set_fresh)
  moreover have "distinct (map fst (d @ [(user_id p, 0)]) @ map user_id ps)"
    using Cons.prems by auto
  ultimately show ?case using Cons.IH [of "d @ [(user_id p, 0)]"] by simp
qed

lemma user_ids_are_keys:
  "list_all (\<lambda>(k, p). user_id p = k) ps \<Longrightarrow> map user_id (map snd ps) = map fst ps"
  by (induction ps) auto

lemma initial_counts:
  assumes "roster_ok s"
  shows "dict_set (- 1) 0 (zero_counts (map snd (players s))) = map (\<lambda>k. (k, 0)) (candidates s)"
proof -
  have ids: "map user_id (map snd (players s)) = map fst (players s)"
    by (rule user_ids_are_keys) (use assms in \<open>simp add: roster_ok_def\<close>)
  have d: "distinct (map fst ([] :: (int \<times> int) list) @ map user_id (map snd (players s)))"
    unfolding ids using assms by (simp add: roster_ok_def)
  have z: "zero_counts (map snd (players s)) = map (\<lambda>k. (k, 0)) (map fst (players s))"
  proof -
    have "zero_counts (map snd (players s)) = map (\<lambda>p. (user_id p, 0)) (map snd (players s))"
      using zero_counts_fold [OF d] by (simp add: zero_counts_def)
    also have "\<dots> = map (\<lambda>k. (k, 0)) (map user_id (map snd (players s)))"
      by (simp add: comp_def)
    finally show ?thesis unfolding ids .
  qed
  have "- 1 \<notin> set (map fst (zero_counts (map snd (players s))))"
    using assms by (simp add: z roster_ok_def ABSTAIN_def comp_def)
  then show ?thesis
    by (simp add: dict_set_fresh z candidates_def ABSTAIN_def)
qed

lemma dict_incr_present:
  "distinct (map fst d) \<Longrightarrow> t \<in> set (map fst d) \<Longrightarrow>
     dict_incr t d = Inr (map (\<lambda>(k, c). (k, if k = t then c + 1 else c)) d)"
proof (induction d)
  case Nil
  then show ?case by simp
next
  case (Cons kc d)
  obtain k c where kc: "kc = (k, c)" by (cases kc)
  show ?case
  proof (cases "k = t")
    case True
    then have "t \<notin> set (map fst d)" using Cons.prems kc by auto
    then have "map (\<lambda>(k, c). (k, if k = t then c + 1 else c)) d = d"
      by (force intro!: map_idI)
    with True kc show ?thesis by (simp add: dict_incr_def)
  next
    case False
    then have "dict_incr t d = Inr (map (\<lambda>(k, c). (k, if k = t then c + 1 else c)) d)"
      using Cons kc by auto
    with False kc show ?thesis
      by (auto simp: dict_incr_def split: option.splits)
  qed
qed

lemma tally_loop_counts:
  "distinct (map fst d) \<Longrightarrow> - 1 \<in> set (map fst d) \<Longrightarrow>
     tally_loop ps d = Inr (map (\<lambda>(k, c). (k, c + cast_for ps k)) d)"
proof (induction ps arbitrary: d)
  case Nil
  then show ?case by (simp add: cast_for_def)
next
  case (Cons p ps)
  show ?case
  proof (cases "vote_target_id p")
    case None
    then have "cast_for (p # ps) = cast_for ps" by (simp add: cast_for_def fun_eq_iff)
    with None Cons show ?thesis by simp
  next
    case (Some t)
    show ?thesis
    proof (cases "t \<in> set (map fst d)")
      case True
      let ?d' = "map (\<lambda>(k, c). (k, if k = t then c + 1 else c)) d"
      have incr: "dict_incr t d = Inr ?d'"
        using Cons.prems True by (simp add: dict_incr_present)
      have keys: "map fst ?d' = map fst d" by (induction d) auto
      have "tally_loop ps ?d' = Inr (map (\<lambda>(k, c). (k, c + cast_for ps k)) ?d')"
        using Cons.prems by (intro Cons.IH) (simp_all only: keys)
      also have "map (\<lambda>(k, c). (k, c + cast_for ps k)) ?d' =
                 map (\<lambda>(k, c). (k, c + cast_for (p # ps) k)) d"
        using Some by (auto simp: cast_for_def)
      finally show ?thesis using Some True incr by simp
    next
      case False
      then have ne: "t \<noteq> - 1" using Cons.prems by auto
      have "map (\<lambda>(k, c). (k, c + cast_for (p # ps) k)) d =
            map (\<lambda>(k, c). (k, c + cast_for ps k)) d"
        using False Some by (force simp: cast_for_def)
      with Some False ne Cons show ?thesis by simp
    qed
  qed
qed

lemma calculate_votes_tally:
  assumes "roster_ok s"
  shows "calculate_votes s = Inr (map (\<lambda>k. (k, votes_for s k)) (candidates s))"
proof -
  let ?d = "map (\<lambda>k. (k, 0::int)) (candidates s)"
  have keys: "map fst ?d = candidates s" by (simp add: comp_def)
  have "distinct (candidates s)" "- 1 \<in> set (candidates s)"
    using assms by (simp_all add: roster_ok_def candidates_def ABSTAIN_def)
  then have "tally_loop (map snd (players s)) ?d =
          Inr (map (\<lambda>(k, c). (k, c + cast_for (map snd (players s)) k)) ?d)"
    by (intro tally_loop_counts) (simp_all only: keys)
  then show ?thesis
    using initial_counts [OF assms]
    by (simp add: calculate_votes_def Let_def comp_def votes_for_def cast_for_def)
qed

lemma candidates_nonempty: "candidates s \<noteq> []"
  by (simp add: candidates_def)

lemma determine_execution_form:
  assumes "roster_ok s"
  shows "determine_execution s =
     (if max_tally s = 0 then (Inr [], s)
      else if length (max_voted_of s) > 1 then (Inr [], s)
      else (case max_voted_of s of
              [] \<Rightarrow> (Inl IndexError, s)
            | uid # _ \<Rightarrow>
                if uid = - 1 then (Inr [], s\<lparr>executed_player_ids := []\<rparr>)
                else (Inr (max_voted_of s), s\<lparr>executed_player_ids := max_voted_of s\<rparr>)))"
proof -
  let ?vc = "map (\<lambda>k. (k, votes_for s k)) (candidates s)"
  obtain c0 rest where cs: "candidates s = c0 # rest"
    using candidates_nonempty [of s] by (cases "candidates s") auto
  have vals: "map snd ?vc = votes_for s c0 # map (votes_for s) rest"
    by (simp add: cs comp_def)
  have "Max (set (votes_for s c0 # map (votes_for s) rest)) =
          fold max (map (votes_for s) rest) (votes_for s c0)"
    by (rule Max.set_eq_fold)
  then have m: "fold max (map (votes_for s) rest) (votes_for s c0) = max_tally s"
    unfolding max_tally_def cs by simp
  have mv: "map fst (filter (\<lambda>(uid, count). count = max_tally s) ?vc) = max_voted_of s"
    unfolding max_voted_of_def by (induction "candidates s") (simp_all add: filter_map comp_def)
  show ?thesis
    unfolding determine_execution_def calculate_votes_tally [OF assms] sum.case vals list.case
      Let_def m mv ..
qed

lemma votes_for_nonneg: "0 \<le> votes_for s k"
  by (simp add: votes_for_def)

lemma max_tally_upper: "k \<in> set (candidates s) \<Longrightarrow> votes_for s k \<le> max_tally s"
  by (simp add: max_tally_def)

lemma max_tally_attained: "\<exists>k \<in> set (candidates s). votes_for s k = max_tally s"
proof -
  have "max_tally s \<in> set (map (votes_for s) (candidates s))"
    unfolding max_tally_def using candidates_nonempty [of s] by (intro Max_in) simp_all
  then show ?thesis by auto
qed

lemma holds_max_iff:
  "k \<in> set (candidates s) \<Longrightarrow> holds_max s k \<longleftrightarrow> votes_for s k = max_tally s"
proof
  assume k: "k \<in> set (candidates s)" and h: "holds_max s k"
  obtain k' where "k' \<in> set (candidates s)" "votes_for s k' = max_tally s"
    using max_tally_attained by blast
  then have "max_tally s \<le> votes_for s k"
    using h by (auto simp: holds_max_def list_all_iff)
  with max_tally_upper [OF k] show "votes_for s k = max_tally s" by simp
next
  assume "k \<in> set (candidates s)" "votes_for s k = max_tally s"
  then show "holds_max s k"
    by (simp add: holds_max_def list_all_iff max_tally_upper)
qed

lemma max_voted_of_set:
  "set (max_voted_of s) = {k \<in> set (candidates s). holds_max s k}"
  using holds_max_iff by (auto simp: max_voted_of_def)

lemma max_voted_of_nonempty: "max_voted_of s \<noteq> []"
  using max_tally_attained [of s] by (auto simp: max_voted_of_def filter_empty_conv)

lemma two_in_list: "x \<in> set xs \<Longrightarrow> y \<in> set xs \<Longrightarrow> x \<noteq> y \<Longrightarrow> 1 < length xs"
  by (cases xs; cases "tl xs") auto

lemma short_list: "xs \<noteq> [] \<Longrightarrow> \<not> 1 < length xs \<Longrightarrow> \<exists>x. xs = [x]"
  by (cases xs) auto

text \<open>
  Claim C2. On a roster as the program builds it, \<^verbatim>\<open>determine_execution\<close> returns a list
  (it does not raise). The list is empty when every count of the tally is zero, when two
  different candidates (the abstain sentinel counts as one) both hold the maximum, and
  when the abstain sentinel holds the maximum. In every other case it is the one-element
  list of a roster player who holds the maximum, with at least one vote.
\<close>

theorem determine_execution_plurality:
  "roster_ok s \<longrightarrow>
     (\<exists>r s'. determine_execution s = (Inr r, s') \<and>
        (list_all (\<lambda>k. votes_for s k = 0) (candidates s) \<longrightarrow> r = []) \<and>
        ((\<exists>k1 \<in> set (candidates s). \<exists>k2 \<in> set (candidates s).
            k1 \<noteq> k2 \<and> holds_max s k1 \<and> holds_max s k2) \<longrightarrow> r = []) \<and>
        (holds_max s ABSTAIN \<longrightarrow> r = []) \<and>
        (\<not> list_all (\<lambda>k. votes_for s k = 0) (candidates s) \<and>
         \<not> (\<exists>k1 \<in> set (candidates s). \<exists>k2 \<in> set (candidates s).
            k1 \<noteq> k2 \<and> holds_max s k1 \<and> holds_max s k2) \<and>
         \<not> holds_max s ABSTAIN
           \<longrightarrow> (\<exists>k \<in> set (map fst (players s)). r = [k] \<and> holds_max s k \<and> 0 < votes_for s k)))"
proof
  assume ok: "roster_ok s"
  note form = determine_execution_form [OF ok]
  have abstain: "ABSTAIN \<in> set (candidates s)" by (simp add: candidates_def)
  define r where "r = (if max_tally s = 0 \<or> 1 < length (max_voted_of s) \<or> hd (max_voted_of s) = - 1
                 then [] else max_voted_of s)"
  note r = r_def
  have "fst (determine_execution s) = Inr r"
    using max_voted_of_nonempty [of s]
    by (cases "max_voted_of s") (simp_all add: form r_def)
  then have rs: "determine_execution s = (Inr r, snd (determine_execution s))"
    by (metis prod.collapse)
  have a: "r = []" if "list_all (\<lambda>k. votes_for s k = 0) (candidates s)"
  proof -
    have "max_tally s = 0"
      using that max_tally_attained [of s] by (auto simp: list_all_iff)
    then show ?thesis by (simp add: r)
  qed
  have b: "r = []" if "\<exists>k1 \<in> set (candidates s). \<exists>k2 \<in> set (candidates s).
            k1 \<noteq> k2 \<and> holds_max s k1 \<and> holds_max s k2"
  proof -
    from that obtain k1 k2 where "k1 \<in> set (max_voted_of s)" "k2 \<in> set (max_voted_of s)" "k1 \<noteq> k2"
      unfolding max_voted_of_set by blast
    then have "1 < length (max_voted_of s)" by (rule two_in_list)
    then show ?thesis by (simp add: r)
  qed
  have c: "r = []" if "holds_max s ABSTAIN"
  proof (cases "1 < length (max_voted_of s)")
    case True
    then show ?thesis by (simp add: r)
  next
    case False
    then obtain k where k: "max_voted_of s = [k]"
      using short_list [OF max_voted_of_nonempty] by blast
    have "ABSTAIN \<in> set (max_voted_of s)"
      unfolding max_voted_of_set using that abstain by simp
    then have "hd (max_voted_of s) = - 1" by (simp add: k ABSTAIN_def)
    then show ?thesis by (simp add: r)
  qed
  have d: "\<exists>k \<in> set (map fst (players s)). r = [k] \<and> holds_max s k \<and> 0 < votes_for s k"
    if nz: "\<not> list_all (\<lambda>k. votes_for s k = 0) (candidates s)"
      and nt: "\<not> (\<exists>k1 \<in> set (candidates s). \<exists>k2 \<in> set (candidates s).
            k1 \<noteq> k2 \<and> holds_max s k1 \<and> holds_max s k2)"
      and na: "\<not> holds_max s ABSTAIN"
  proof -
    from nz obtain k0 where k0: "k0 \<in> set (candidates s)" "votes_for s k0 \<noteq> 0"
      by (auto simp: list_all_iff)
    then have "0 < votes_for s k0" using votes_for_nonneg [of s k0] by simp
    then have pos: "0 < max_tally s" using max_tally_upper [OF k0(1)] by simp
    have short: "\<not> 1 < length (max_voted_of s)"
    proof
      assume "1 < length (max_voted_of s)"
      then obtain x y zs where xy: "max_voted_of s = x # y # zs"
        by (cases "max_voted_of s"; cases "tl (max_voted_of s)") auto
      have "distinct (max_voted_of s)"
        using ok by (simp add: max_voted_of_def roster_ok_def candidates_def)
      then have "x \<noteq> y" by (simp add: xy)
      moreover have "x \<in> set (max_voted_of s)" "y \<in> set (max_voted_of s)" by (simp_all add: xy)
      ultimately show False using nt unfolding max_voted_of_set by blast
    qed
    then obtain k where k: "max_voted_of s = [k]"
      using short_list [OF max_voted_of_nonempty] by blast
    then have "k \<in> set (max_voted_of s)" by simp
    then have kc: "k \<in> set (candidates s)" and km: "holds_max s k"
      unfolding max_voted_of_set by simp_all
    have kne: "k \<noteq> ABSTAIN" using km na by auto
    then have "k \<in> set (map fst (players s))" using kc by (simp add: candidates_def)
    moreover have "r = [k]" using pos short kne by (simp add: r k ABSTAIN_def)
    moreover have "0 < votes_for s k" using pos holds_max_iff [OF kc] km by simp
    ultimately show ?thesis using km by blast
  qed
  from rs a b c d
  show "\<exists>r s'. determine_execution s = (Inr r, s') \<and>
        (list_all (\<lambda>k. votes_for s k = 0) (candidates s) \<longrightarrow> r = []) \<and>
        ((\<exists>k1 \<in> set (candidates s). \<exists>k2 \<in> set (candidates s).
            k1 \<noteq> k2 \<and> holds_max s k1 \<and> holds_max s k2) \<longrightarrow> r = []) \<and>
        (holds_max s ABSTAIN \<longrightarrow> r = []) \<and>
        (\<not> list_all (\<lambda>k. votes_for s k = 0) (candidates s) \<and>
         \<not> (\<exists>k1 \<in> set (candidates s). \<exists>k2 \<in> set (candidates s).
            k1 \<noteq> k2 \<and> holds_max s k1 \<and> holds_max s k2) \<and>
         \<not> holds_max s ABSTAIN
           \<longrightarrow> (\<exists>k \<in> set (map fst (players s)). r = [k] \<and> holds_max s k \<and> 0 < votes_for s k))"
    by blast
qed

text \<open>Three votes against one execute player 1; two against two, a tie with the
  sentinel, a majority for the sentinel and no vote at all execute nobody.\<close>

theorem determine_execution_witness:
  "fst (determine_execution (voting_state
      [voter 1 (Some 2), voter 2 (Some 1), voter 3 (Some 1), voter 4 (Some 1)])) = Inr [1] \<and>
   fst (determine_execution (voting_state
      [voter 1 (Some 2), voter 2 (Some 1), voter 3 (Some 1), voter 4 (Some 2)])) = Inr [] \<and>
   fst (determine_execution (voting_state
      [voter 1 (Some (- 1)), voter 2 (Some 1), voter 3 (Some 1), voter 4 (Some (- 1))])) = Inr [] \<and>
   fst (determine_execution (voting_state
      [voter 1 (Some (- 1)), voter 2 (Some (- 1)), voter 3 (Some 1)])) = Inr [] \<and>
   fst (determine_execution (voting_state
      [voter 1 None, voter 2 None, voter 3 None])) = Inr []"
  using determine_execution_plurality [of "voting_state
      [voter 1 (Some 2), voter 2 (Some 1), voter 3 (Some 1), voter 4 (Some 1)]"]
    determine_execution_plurality [of "voting_state
      [voter 1 (Some 2), voter 2 (Some 1), voter 3 (Some 1), voter 4 (Some 2)]"]
    determine_execution_plurality [of "voting_state
      [voter 1 (Some (- 1)), voter 2 (Some 1), voter 3 (Some 1), voter 4 (Some (- 1))]"]
    determine_execution_plurality [of "voting_state
      [voter 1 (Some (- 1)), voter 2 (Some (- 1)), voter 3 (Some 1)]"]
    determine_execution_plurality [of "voting_state
      [voter 1 None, voter 2 None, voter 3 None]"]
  by (simp add: vote_defs)

section \<open>The deal\<close>

lemma update_unique_entry:
  assumes "u \<notin> fst ` set pre" "u \<notin> fst ` set post"
  shows "map (\<lambda>(k, q). if k = u then (k, f q) else (k, q)) (pre @ (u, p) # post) =
           pre @ (u, f p) # post"
proof -
  have "map (\<lambda>(k, q). if k = u then (k, f q) else (k, q)) pre = pre"
    and "map (\<lambda>(k, q). if k = u then (k, f q) else (k, q)) post = post"
    using assms by (force intro!: map_idI)+
  then show ?thesis by simp
qed

lemma deal_loop_result:
  "players s = pre @ post \<Longrightarrow> distinct (map fst (pre @ post)) \<Longrightarrow> i + length post \<le> length rs
     \<Longrightarrow> deal_loop i (map fst post) rs s =
           (Inr (), s\<lparr>players := pre @ map2 dealt post (drop i rs)\<rparr>)"
proof (induction post arbitrary: i pre s)
  case Nil
  then show ?case by simp
next
  case (Cons kp post)
  obtain u p where kp: "kp = (u, p)" by (cases kp)
  let ?p' = "p\<lparr>initial_role := rs ! i, current_role := rs ! i\<rparr>"
  let ?s' = "update_player u (\<lambda>p. p\<lparr>current_role := rs ! i\<rparr>)
               (update_player u (\<lambda>p. p\<lparr>initial_role := rs ! i\<rparr>) s)"
  have i: "i < length rs" using Cons.prems by simp
  have d: "distinct (map fst (pre @ (u, p) # post))" using Cons.prems kp by simp
  have u: "u \<notin> fst ` set pre" "u \<notin> fst ` set post" using d by auto
  have s': "?s' = s\<lparr>players := (pre @ [(u, ?p')]) @ post\<rparr>"
    using Cons.prems(1) kp
    by (simp add: update_player_def update_unique_entry [OF u] del: map_append)
  have "deal_loop (Suc i) (map fst post) rs ?s' =
          (Inr (), ?s'\<lparr>players := (pre @ [(u, ?p')]) @ map2 dealt post (drop (Suc i) rs)\<rparr>)"
  proof (rule Cons.IH)
    show "players ?s' = (pre @ [(u, ?p')]) @ post" by (simp add: s')
    show "distinct (map fst ((pre @ [(u, ?p')]) @ post))" using d by simp
    show "Suc i + length post \<le> length rs" using Cons.prems by simp
  qed
  moreover have "drop i rs = rs ! i # drop (Suc i) rs"
    using i by (simp add: Cons_nth_drop_Suc)
  ultimately show ?case
    using i kp by (simp add: Let_def s' dealt_def)
qed

lemma initial_roles_dealt:
  "length ps \<le> length rs \<Longrightarrow> map (initial_role \<circ> snd) (map2 dealt ps rs) = take (length ps) rs"
proof (induction ps arbitrary: rs)
  case Nil
  then show ?case by simp
next
  case (Cons kp ps)
  then obtain r rs' where rs: "rs = r # rs'" by (cases rs) auto
  with Cons show ?case by (simp add: dealt_def)
qed

lemma roles_agree_dealt:
  "kp \<in> set (map2 dealt ps rs) \<Longrightarrow> initial_role (snd kp) = current_role (snd kp)"
  by (auto simp: dealt_def dest!: set_zip_leftD set_zip_rightD in_set_zipE)

lemma keys_dealt:
  "length ps \<le> length rs \<Longrightarrow> map fst (map2 dealt ps rs) = map fst ps"
proof (induction ps arbitrary: rs)
  case Nil
  then show ?case by simp
next
  case (Cons kp ps)
  then obtain r rs' where rs: "rs = r # rs'" by (cases rs) auto
  with Cons show ?case by (simp add: dealt_def)
qed

lemma setup_game_result:
  assumes "distinct (map fst (players s))" "length deck = player_count s + 2"
    "length (shuffle deck) = length deck"
  shows "setup_game shuffle s deck =
     (Inr (), s\<lparr>players := map2 dealt (players s) (shuffle deck),
               center_cards := drop (player_count s) (shuffle deck),
               night_action_order := NIGHT_ACTION_ORDER,
               night_action_index := 0,
               phase := NIGHT\<rparr>)"
proof -
  have "deal_loop 0 (map fst (players s)) (shuffle deck) s =
          (Inr (), s\<lparr>players := [] @ map2 dealt (players s) (drop 0 (shuffle deck))\<rparr>)"
    by (rule deal_loop_result) (use assms in \<open>simp_all add: player_count_def\<close>)
  then show ?thesis
    using assms by (simp add: setup_game_def Let_def)
qed

text \<open>
  Claim C4. For a roster without a repeated key, a deck of roster size plus two cards and
  a shuffle that rearranges the deck, \<^verbatim>\<open>setup_game\<close> returns normally and afterwards the
  multiset of the players' initial roles together with the center cards is the multiset
  of the deck, every player's initial role equals the current role, the roster has the
  same identities in the same order, there are two center cards, the phase is Night, the
  night-action order is Werewolf, Seer, Thief and the progress index is 0.
\<close>

theorem setup_game_deals_the_deck:
  "distinct (map fst (players s)) \<and> length deck = player_count s + 2 \<and>
   mset (shuffle deck) = mset deck
     \<longrightarrow> (\<exists>s'. setup_game shuffle s deck = (Inr (), s') \<and>
           mset (map (initial_role \<circ> snd) (players s')) + mset (center_cards s') = mset deck \<and>
           (\<forall>kp \<in> set (players s'). initial_role (snd kp) = current_role (snd kp)) \<and>
           map fst (players s') = map fst (players s) \<and>
           length (center_cards s') = 2 \<and>
           phase s' = NIGHT \<and>
           night_action_order s' = [WEREWOLF, SEER, THIEF] \<and>
           night_action_index s' = 0)"
proof
  assume h: "distinct (map fst (players s)) \<and> length deck = player_count s + 2 \<and>
   mset (shuffle deck) = mset deck"
  then have len: "length (shuffle deck) = length deck"
    by (metis size_mset)
  have n: "length (players s) \<le> length (shuffle deck)"
    using h len by (simp add: player_count_def)
  have tk: "mset (take (length (players s)) (shuffle deck)) + mset (drop (length (players s)) (shuffle deck))
          = mset (shuffle deck)"
    by (metis append_take_drop_id mset_append)
  have eq: "map (initial_role \<circ> snd) (map2 dealt (players s) (shuffle deck)) =
              take (length (players s)) (shuffle deck)"
    by (rule initial_roles_dealt [OF n])
  have m: "mset (map (initial_role \<circ> snd) (map2 dealt (players s) (shuffle deck))) +
           mset (drop (player_count s) (shuffle deck)) = mset deck"
    unfolding eq player_count_def using h tk by simp
  let ?s' = "s\<lparr>players := map2 dealt (players s) (shuffle deck),
               center_cards := drop (player_count s) (shuffle deck),
               night_action_order := NIGHT_ACTION_ORDER,
               night_action_index := 0,
               phase := NIGHT\<rparr>"
  show "\<exists>s'. setup_game shuffle s deck = (Inr (), s') \<and>
           mset (map (initial_role \<circ> snd) (players s')) + mset (center_cards s') = mset deck \<and>
           (\<forall>kp \<in> set (players s'). initial_role (snd kp) = current_role (snd kp)) \<and>
           map fst (players s') = map fst (players s) \<and>
           length (center_cards s') = 2 \<and>
           phase s' = NIGHT \<and>
           night_action_order s' = [WEREWOLF, SEER, THIEF] \<and>
           night_action_index s' = 0"
  proof (intro exI conjI)
    have p: "players ?s' = map2 dealt (players s) (shuffle deck)" by simp
    have c: "center_cards ?s' = drop (player_count s) (shuffle deck)" by simp
    show "setup_game shuffle s deck = (Inr (), ?s')"
      using h len by (simp add: setup_game_result)
    show "mset (map (initial_role \<circ> snd) (players ?s')) + mset (center_cards ?s') = mset deck"
      unfolding p c by (rule m)
    show "\<forall>kp \<in> set (players ?s'). initial_role (snd kp) = current_role (snd kp)"
      unfolding p using roles_agree_dealt [of _ "players s" "shuffle deck"] by blast
    show "map fst (players ?s') = map fst (players s)"
      unfolding p by (rule keys_dealt [OF n])
    show "length (center_cards ?s') = 2"
      using h len by (simp add: player_count_def)
  qed (simp_all add: NIGHT_ACTION_ORDER_def)
qed

text \<open>Three players and five cards, with reversal as the shuffle.\<close>

theorem setup_game_witness:
  "fst (setup_game rev waiting_state [WEREWOLF, SEER, THIEF, VILLAGER, TANNER]) = Inr () \<and>
   map (initial_role \<circ> snd)
     (players (snd (setup_game rev waiting_state [WEREWOLF, SEER, THIEF, VILLAGER, TANNER]))) =
     [TANNER, VILLAGER, THIEF] \<and>
   map (current_role \<circ> snd)
     (players (snd (setup_game rev waiting_state [WEREWOLF, SEER, THIEF, VILLAGER, TANNER]))) =
     [TANNER, VILLAGER, THIEF] \<and>
   center_cards (snd (setup_game rev waiting_state [WEREWOLF, SEER, THIEF, VILLAGER, TANNER])) =
     [SEER, WEREWOLF] \<and>
   phase (snd (setup_game rev waiting_state [WEREWOLF, SEER, THIEF, VILLAGER, TANNER])) = NIGHT"
  using setup_game_deals_the_deck [of waiting_state "[WEREWOLF, SEER, THIEF, VILLAGER, TANNER]" rev]
  by (simp add: deal_defs)

lemma deal_loop_no_value_error: "fst (deal_loop i us rs s) \<noteq> Inl ValueError"
  by (induction us arbitrary: i s) (simp_all add: Let_def)

lemma deal_loop_succeeds:
  "i + length us \<le> length rs \<Longrightarrow> \<exists>s'. deal_loop i us rs s = (Inr (), s')"
  by (induction us arbitrary: i s) (simp_all add: Let_def)

text \<open>
  Claim C5. When the deck does not have roster size plus two cards, \<^verbatim>\<open>setup_game\<close>
  raises \<^verbatim>\<open>ValueError\<close> and the state (players' roles, center cards, phase) is as it
  was. It raises \<^verbatim>\<open>ValueError\<close> in no other case; and as a shuffle keeps the number of
  cards, it fails at all exactly when the deck has the wrong size.
\<close>

theorem setup_game_deck_size_mismatch:
  "(length deck \<noteq> player_count s + 2 \<longrightarrow> setup_game shuffle s deck = (Inl ValueError, s)) \<and>
   (fst (setup_game shuffle s deck) = Inl ValueError \<longleftrightarrow> length deck \<noteq> player_count s + 2) \<and>
   (length (shuffle deck) = length deck \<longrightarrow>
      (isl (fst (setup_game shuffle s deck)) \<longleftrightarrow> length deck \<noteq> player_count s + 2))"
proof (intro conjI impI)
  assume "length deck \<noteq> player_count s + 2"
  then show "setup_game shuffle s deck = (Inl ValueError, s)"
    by (simp add: setup_game_def)
next
  show "fst (setup_game shuffle s deck) = Inl ValueError \<longleftrightarrow> length deck \<noteq> player_count s + 2"
    using deal_loop_no_value_error [of 0 "map fst (players s)" "shuffle deck" s]
    by (auto simp: setup_game_def Let_def split: prod.splits sum.splits)
next
  assume len: "length (shuffle deck) = length deck"
  show "isl (fst (setup_game shuffle s deck)) \<longleftrightarrow> length deck \<noteq> player_count s + 2"
  proof (cases "length deck = player_count s + 2")
    case True
    then have "0 + length (map fst (players s)) \<le> length (shuffle deck)"
      using len by (simp add: player_count_def)
    from deal_loop_succeeds [OF this] obtain s'
      where "deal_loop 0 (map fst (players s)) (shuffle deck) s = (Inr (), s')" by blast
    with True show ?thesis by (simp add: setup_game_def Let_def)
  next
    case False
    then show ?thesis by (simp add: setup_game_def)
  qed
qed

text \<open>Four cards and six cards for three players are refused, five are dealt.\<close>

theorem setup_game_mismatch_witness:
  "setup_game rev waiting_state [WEREWOLF, SEER, THIEF, VILLAGER] = (Inl ValueError, waiting_state) \<and>
   setup_game rev waiting_state [WEREWOLF, SEER, THIEF, VILLAGER, TANNER, TANNER] =
     (Inl ValueError, waiting_state) \<and>
   fst (setup_game rev waiting_state [WEREWOLF, SEER, THIEF, VILLAGER, TANNER]) = Inr ()"
  using setup_game_deck_size_mismatch [of "[WEREWOLF, SEER, THIEF, VILLAGER]" waiting_state rev]
    setup_game_deck_size_mismatch [of "[WEREWOLF, SEER, THIEF, VILLAGER, TANNER, TANNER]" waiting_state rev]
    setup_game_deck_size_mismatch [of "[WEREWOLF, SEER, THIEF, VILLAGER, TANNER]" waiting_state rev]
  by (simp add: deal_defs)

end
